theory Spec2Isabelle
  imports Complex_Main "HOL-Library.Word"
begin

section \<open>JavaScript values\<close>

text \<open>
  The handlers of \<^verbatim>\<open>index.js\<close> move JavaScript values around without looking inside
  them, except for one truthiness test. A number is the rational a finite double denotes,
  or one of the three special doubles.
\<close>

datatype jsnum = NaN | Finite rat | Infinite bool

datatype jsval =
    JUndefined
  | JNull
  | JBool bool
  | JNum jsnum
  | JStr string
  | JArr "jsval list"
  | JObj "(string \<times> jsval) list"

text \<open>ToBoolean: what \<^verbatim>\<open>||\<close> and \<^verbatim>\<open>!\<close> test.\<close>

fun truthy :: "jsval \<Rightarrow> bool" where
  "truthy JUndefined = False"
| "truthy JNull = False"
| "truthy (JBool b) = b"
| "truthy (JNum NaN) = False"
| "truthy (JNum (Finite r)) = (r \<noteq> 0)"
| "truthy (JNum (Infinite s)) = True"
| "truthy (JStr s) = (s \<noteq> [])"
| "truthy (JArr xs) = True"
| "truthy (JObj kvs) = True"

text \<open>Property access on a plain object: a missing key reads as \<^verbatim>\<open>undefined\<close>.\<close>

definition get_prop :: "(string \<rightharpoonup> jsval) \<Rightarrow> string \<Rightarrow> jsval" where
  "get_prop obj k = (case obj k of None \<Rightarrow> JUndefined | Some v \<Rightarrow> v)"

text \<open>A thrown value is an \<^verbatim>\<open>Error\<close> object; the handlers read its \<^verbatim>\<open>message\<close>.\<close>

record js_error =
  name :: string
  message :: string

text \<open>
  The two TypeErrors of reading through \<^verbatim>\<open>undefined\<close>: destructuring it
  (\<^verbatim>\<open>const { k } = src\<close>) and reading a property of it (\<^verbatim>\<open>src.k\<close>).
\<close>

definition cannot_destructure :: "string \<Rightarrow> string \<Rightarrow> js_error" where
  "cannot_destructure k src =
     \<lparr>name = ''TypeError'',
      message = ''Cannot destructure property '' @ [CHR 0x27] @ k @ [CHR 0x27] @ '' of ''
                @ [CHR 0x27] @ src @ [CHR 0x27] @ '' as it is undefined.''\<rparr>"

definition cannot_read_undefined :: "string \<Rightarrow> js_error" where
  "cannot_read_undefined k =
     \<lparr>name = ''TypeError'',
      message = ''Cannot read properties of undefined (reading '' @ [CHR 0x27] @ k @ [CHR 0x27]
                @ '')''\<rparr>"

section \<open>The world a handler runs in\<close>

type_synonym bytes = "8 word list"

text \<open>
  A file in \<^verbatim>\<open>uploads/\<close>. The two fault fields are the error the operating system
  answers a read or an unlink of this file with (permissions, I/O), if any.
\<close>

record node =
  content :: bytes
  read_fault :: "js_error option"
  unlink_fault :: "js_error option"

datatype event =
    ReadFile string
  | Exists string
  | Unlink string
  | Generate jsval
  | ConsoleError string js_error

record world =
  disk :: "string \<rightharpoonup> node"
  trace :: "event list"

definition emit :: "event \<Rightarrow> world \<Rightarrow> world" where
  "emit ev w = w\<lparr>trace := trace w @ [ev]\<rparr>"

definition enoent :: "string \<Rightarrow> string \<Rightarrow> js_error" where
  "enoent syscall p =
     \<lparr>name = ''Error'',
      message = ''ENOENT: no such file or directory, '' @ syscall @ '' '' @ [CHR 0x27] @ p @ [CHR 0x27]\<rparr>"

definition readFileSync :: "string \<Rightarrow> world \<Rightarrow> (js_error + bytes) \<times> world" where
  "readFileSync p w =
     (let w1 = emit (ReadFile p) w in
      case disk w p of
        None \<Rightarrow> (Inl (enoent ''open'' p), w1)
      | Some nd \<Rightarrow>
          (case read_fault nd of
             Some e \<Rightarrow> (Inl e, w1)
           | None \<Rightarrow> (Inr (content nd), w1)))"

definition existsSync :: "string \<Rightarrow> world \<Rightarrow> bool \<times> world" where
  "existsSync p w = (disk w p \<noteq> None, emit (Exists p) w)"

definition unlinkSync :: "string \<Rightarrow> world \<Rightarrow> (js_error + unit) \<times> world" where
  "unlinkSync p w =
     (let w1 = emit (Unlink p) w in
      case disk w p of
        None \<Rightarrow> (Inl (enoent ''unlink'' p), w1)
      | Some nd \<Rightarrow>
          (case unlink_fault nd of
             Some e \<Rightarrow> (Inl e, w1)
           | None \<Rightarrow> (Inr (), w1\<lparr>disk := (disk w1)(p := None)\<rparr>)))"

definition console_error :: "string \<Rightarrow> js_error \<Rightarrow> world \<Rightarrow> world" where
  "console_error label e w = emit (ConsoleError label e) w"

subsection \<open>Buffer.toString("base64")\<close>

definition b64_alphabet :: string where
  "b64_alphabet = ''ABCDEFGHIJKLMNOPQRSTUVWXYZabcdefghijklmnopqrstuvwxyz0123456789+/''"

definition b64_char :: "nat \<Rightarrow> char" where
  "b64_char n = b64_alphabet ! n"

fun toString_base64 :: "bytes \<Rightarrow> string" where
  "toString_base64 (a # b # c # rest) =
     (let n = unat a * 65536 + unat b * 256 + unat c in
      [b64_char (n div 262144), b64_char (n div 4096 mod 64),
       b64_char (n div 64 mod 64), b64_char (n mod 64)] @ toString_base64 rest)"
| "toString_base64 [a, b] =
     (let n = unat a * 65536 + unat b * 256 in
      [b64_char (n div 262144), b64_char (n div 4096 mod 64),
       b64_char (n div 64 mod 64), CHR ''=''])"
| "toString_base64 [a] =
     (let n = unat a * 65536 in
      [b64_char (n div 262144), b64_char (n div 4096 mod 64), CHR ''='', CHR ''=''])"
| "toString_base64 [] = []"

subsection \<open>Base64 as RFC 4648 states it\<close>

text \<open>
  The encoder above works on numbers. To compare it with, here is the encoding in the words
  of RFC 4648, section 4, on bits: the input bytes, most significant bit first, form one
  bit string; it is cut into groups of six bits, the last group filled with zero bits on
  the right; each group, read as a number, selects a character of the alphabet (A to Z,
  a to z, 0 to 9, plus, slash); and the output is filled with \<^verbatim>\<open>=\<close> to a multiple of four
  characters.
\<close>

definition byte_bits :: "8 word \<Rightarrow> bool list" where
  "byte_bits a = map (bit a) [7, 6, 5, 4, 3, 2, 1, 0]"

fun bits_value :: "bool list \<Rightarrow> nat" where
  "bits_value [] = 0"
| "bits_value (b # bs) = (if b then 2 ^ length bs else 0) + bits_value bs"

fun sextets :: "bool list \<Rightarrow> bool list list" where
  "sextets (b1 # b2 # b3 # b4 # b5 # b6 # rest) = [b1, b2, b3, b4, b5, b6] # sextets rest"
| "sextets [] = []"
| "sextets bs = [bs @ replicate (6 - length bs) False]"

definition rfc4648_char :: "nat \<Rightarrow> char" where
  "rfc4648_char k =
     (if k < 26 then char_of (65 + k)
      else if k < 52 then char_of (97 + (k - 26))
      else if k < 62 then char_of (48 + (k - 52))
      else if k = 62 then CHR ''+''
      else CHR ''/'')"

definition base64_rfc4648 :: "bytes \<Rightarrow> string" where
  "base64_rfc4648 bs =
     map (\<lambda>g. rfc4648_char (bits_value g)) (sextets (concat (map byte_bits bs)))
     @ replicate ((3 - length bs mod 3) mod 3) CHR ''=''"

subsection \<open>The remote model\<close>

text \<open>
  \<^verbatim>\<open>model.generateContent(x)\<close>, \<^verbatim>\<open>result.response\<close> and \<^verbatim>\<open>response.text()\<close> together:
  the provider answers the submitted contents with a text or throws. A handler calls it
  at most once, so a function of the contents covers every behaviour of the provider.
\<close>

type_synonym provider = "jsval \<Rightarrow> js_error + string"

definition generateContent :: "provider \<Rightarrow> jsval \<Rightarrow> world \<Rightarrow> (js_error + string) \<times> world" where
  "generateContent model contents w = (model contents, emit (Generate contents) w)"

section \<open>Requests and responses\<close>

record file_info =
  path :: string
  mimetype :: string
  size :: nat

text \<open>
  What the middleware hands to a handler. \<^verbatim>\<open>req.body\<close> is the object \<^verbatim>\<open>express.json()\<close> or
  multer built, as the map of its properties, or \<open>None\<close> for \<^verbatim>\<open>undefined\<close>: the value it has
  when no parser accepted the request. \<^verbatim>\<open>req.file\<close> is present when multer stored an upload
  under the expected field name; multer has then set \<^verbatim>\<open>req.body\<close> to an object as well.
\<close>

record request =
  req_body :: "(string \<rightharpoonup> jsval) option"
  req_file :: "file_info option"

datatype payload = Json jsval | Text string

record response =
  status :: nat
  payload :: payload

text \<open>
  What a handler leaves behind: the response it sent (if any), the exception that escaped
  it (if any), and the world afterwards. What Express does with an escaped exception is
  not part of the handler.
\<close>

record outcome =
  resp :: "response option"
  uncaught :: "js_error option"
  final :: world

definition res_json :: "nat \<Rightarrow> jsval \<Rightarrow> response" where
  "res_json code v = \<lparr>status = code, payload = Json v\<rparr>"

definition res_send :: "nat \<Rightarrow> string \<Rightarrow> response" where
  "res_send code s = \<lparr>status = code, payload = Text s\<rparr>"

section \<open>The handlers\<close>

subsection \<open>POST /generate-text\<close>

text \<open>
  The destructuring of \<^verbatim>\<open>req.body\<close> is before the \<^verbatim>\<open>try\<close>: on an undefined body it throws
  out of the handler.
\<close>

definition generate_text :: "provider \<Rightarrow> request \<Rightarrow> world \<Rightarrow> outcome" where
  "generate_text model req w =
     (case req_body req of
        None \<Rightarrow>
          \<lparr>resp = None, uncaught = Some (cannot_destructure ''prompt'' ''req.body''), final = w\<rparr>
      | Some b \<Rightarrow>
          (let prompt = get_prop b ''prompt'' in
           case generateContent model prompt w of
             (Inr text, w1) \<Rightarrow>
               \<lparr>resp = Some (res_json 200 (JObj [(''output'', JStr text)])),
                uncaught = None, final = w1\<rparr>
           | (Inl error, w1) \<Rightarrow>
               \<lparr>resp = Some (res_json 500 (JObj [(''error'', JStr (message error))])),
                uncaught = None, final = w1\<rparr>))"

subsection \<open>The finally block of the three upload handlers\<close>

text \<open>
  \<^verbatim>\<open>if (req.file && fs.existsSync(p)) { fs.unlinkSync(p); }\<close>: the result is the
  exception that leaves the block, if any.
\<close>

definition release :: "file_info option \<Rightarrow> string \<Rightarrow> world \<Rightarrow> js_error option \<times> world" where
  "release f p w =
     (case f of
        None \<Rightarrow> (None, w)
      | Some _ \<Rightarrow>
          (let (there, w1) = existsSync p w in
           if there then
             (case unlinkSync p w1 of
                (Inl e, w2) \<Rightarrow> (Some e, w2)
              | (Inr _, w2) \<Rightarrow> (None, w2))
           else (None, w1)))"

definition inlineData :: "string \<Rightarrow> string \<Rightarrow> jsval" where
  "inlineData d m = JObj [(''inlineData'', JObj [(''data'', JStr d), (''mimeType'', JStr m)])]"

subsection \<open>POST /generate-from-document\<close>

definition document_try :: "provider \<Rightarrow> file_info \<Rightarrow> string \<Rightarrow> world \<Rightarrow> (js_error + response) \<times> world" where
  "document_try model f filePath w =
     (case readFileSync filePath w of
        (Inl e, w1) \<Rightarrow> (Inl e, w1)
      | (Inr buffer, w1) \<Rightarrow>
          (let base64Data = toString_base64 buffer;
               mimeType = mimetype f;
               documentPart = inlineData base64Data mimeType in
           case generateContent model (JArr [JStr ''Analyze this document:'', documentPart]) w1 of
             (Inl e, w2) \<Rightarrow> (Inl e, w2)
           | (Inr text, w2) \<Rightarrow> (Inr (res_json 200 (JObj [(''output'', JStr text)])), w2)))"

definition document_catch :: "js_error \<Rightarrow> world \<Rightarrow> response \<times> world" where
  "document_catch error w =
     (let w1 = console_error ''Error processing document:'' error w in
      (res_json 500 (JObj [(''error'', JStr (message error))]), w1))"

definition generate_from_document :: "provider \<Rightarrow> request \<Rightarrow> world \<Rightarrow> outcome" where
  "generate_from_document model req w =
     (case req_file req of
        None \<Rightarrow>
          \<lparr>resp = Some (res_send 400 ''No document file uploaded.''), uncaught = None, final = w\<rparr>
      | Some f \<Rightarrow>
          (let filePath = path f;
               (r, w1) = (case document_try model f filePath w of
                            (Inr r, w1) \<Rightarrow> (r, w1)
                          | (Inl error, w1) \<Rightarrow> document_catch error w1);
               (u, w2) = release (req_file req) filePath w1
           in \<lparr>resp = Some r, uncaught = u, final = w2\<rparr>))"

subsection \<open>POST /generate-from-audio\<close>

definition audio_try :: "provider \<Rightarrow> file_info \<Rightarrow> string \<Rightarrow> world \<Rightarrow> (js_error + response) \<times> world" where
  "audio_try model f filePath w =
     (case readFileSync filePath w of
        (Inl e, w1) \<Rightarrow> (Inl e, w1)
      | (Inr audioBuffer, w1) \<Rightarrow>
          (let base64Audio = toString_base64 audioBuffer;
               mimeType = mimetype f;
               audioPart = inlineData base64Audio mimeType in
           case generateContent model
                  (JArr [JStr ''Transcribe or analyze the following audio:'', audioPart]) w1 of
             (Inl e, w2) \<Rightarrow> (Inl e, w2)
           | (Inr text, w2) \<Rightarrow> (Inr (res_json 200 (JObj [(''output'', JStr text)])), w2)))"

definition audio_catch :: "js_error \<Rightarrow> world \<Rightarrow> response \<times> world" where
  "audio_catch error w =
     (let w1 = console_error ''Error processing audio:'' error w in
      (res_json 500 (JObj [(''error'', JStr (message error))]), w1))"

definition generate_from_audio :: "provider \<Rightarrow> request \<Rightarrow> world \<Rightarrow> outcome" where
  "generate_from_audio model req w =
     (case req_file req of
        None \<Rightarrow>
          \<lparr>resp = Some (res_send 400 ''No audio file uploaded.''), uncaught = None, final = w\<rparr>
      | Some f \<Rightarrow>
          (let filePath = path f;
               (r, w1) = (case audio_try model f filePath w of
                            (Inr r, w1) \<Rightarrow> (r, w1)
                          | (Inl error, w1) \<Rightarrow> audio_catch error w1);
               (u, w2) = release (req_file req) filePath w1
           in \<lparr>resp = Some r, uncaught = u, final = w2\<rparr>))"

subsection \<open>POST /generate-from-image\<close>

text \<open>
  The handler calls \<^verbatim>\<open>fileToGenerativePart(req.file.path, req.file.mimetype)\<close> before its
  \<^verbatim>\<open>try\<close>. What the call does depends on what the identifier is bound to, so the handler
  is written over that binding: \<open>None\<close> is an identifier nothing declares, and evaluating
  it throws a \<^verbatim>\<open>ReferenceError\<close>.
\<close>

type_synonym js_function = "string \<Rightarrow> string \<Rightarrow> world \<Rightarrow> (js_error + jsval) \<times> world"

definition reference_error :: "string \<Rightarrow> js_error" where
  "reference_error ident = \<lparr>name = ''ReferenceError'', message = ident @ '' is not defined''\<rparr>"

text \<open>
  Line 37, \<^verbatim>\<open>req.body.prompt || "Describe the image"\<close>, the handler's first statement: it
  throws when \<^verbatim>\<open>req.body\<close> is undefined.
\<close>

definition image_prompt :: "request \<Rightarrow> js_error + jsval" where
  "image_prompt req =
     (case req_body req of
        None \<Rightarrow> Inl (cannot_read_undefined ''prompt'')
      | Some b \<Rightarrow>
          Inr (let p = get_prop b ''prompt'' in if truthy p then p else JStr ''Describe the image''))"

definition image_try :: "provider \<Rightarrow> jsval \<Rightarrow> jsval \<Rightarrow> world \<Rightarrow> (js_error + response) \<times> world" where
  "image_try model prompt image_part w =
     (case generateContent model (JArr [prompt, image_part]) w of
        (Inl e, w1) \<Rightarrow> (Inl e, w1)
      | (Inr text, w1) \<Rightarrow> (Inr (res_json 200 (JObj [(''output'', JStr text)])), w1))"

definition image_catch :: "js_error \<Rightarrow> world \<Rightarrow> response \<times> world" where
  "image_catch error w =
     (let w1 = console_error ''Error processing image:'' error w in
      (res_json 500 (JObj [(''error'', JStr (message error))]), w1))"

definition generate_from_image_with ::
    "js_function option \<Rightarrow> provider \<Rightarrow> request \<Rightarrow> world \<Rightarrow> outcome" where
  "generate_from_image_with binding model req w =
     (case image_prompt req of
        Inl e \<Rightarrow> \<lparr>resp = None, uncaught = Some e, final = w\<rparr>
      | Inr prompt \<Rightarrow>
          (case req_file req of
             None \<Rightarrow>
               \<lparr>resp = Some (res_send 400 ''No image file uploaded.''), uncaught = None, final = w\<rparr>
           | Some f \<Rightarrow>
               (case binding of
                  None \<Rightarrow>
                    \<lparr>resp = None, uncaught = Some (reference_error ''fileToGenerativePart''),
                     final = w\<rparr>
                | Some fn \<Rightarrow>
                    (case fn (path f) (mimetype f) w of
                       (Inl e, w0) \<Rightarrow> \<lparr>resp = None, uncaught = Some e, final = w0\<rparr>
                     | (Inr image_part, w0) \<Rightarrow>
                         (let (r, w1) = (case image_try model prompt image_part w0 of
                                           (Inr r, w1) \<Rightarrow> (r, w1)
                                         | (Inl error, w1) \<Rightarrow> image_catch error w1);
                              (u, w2) = release (req_file req) (path f) w1
                          in \<lparr>resp = Some r, uncaught = u, final = w2\<rparr>)))))"

text \<open>
  \<^verbatim>\<open>index.js\<close> neither declares nor imports \<^verbatim>\<open>fileToGenerativePart\<close>, and none of the
  modules it loads defines a global of that name.
\<close>

definition fileToGenerativePart :: "js_function option" where
  "fileToGenerativePart = None"

definition generate_from_image :: "provider \<Rightarrow> request \<Rightarrow> world \<Rightarrow> outcome" where
  "generate_from_image = generate_from_image_with fileToGenerativePart"

section \<open>Sample inputs\<close>

definition pdf_upload :: file_info where
  "pdf_upload = \<lparr>path = ''uploads/3f9a'', mimetype = ''application/pdf'', size = 3\<rparr>"

definition pdf_node :: node where
  "pdf_node = \<lparr>content = [77, 97, 110], read_fault = None, unlink_fault = None\<rparr>"

definition pdf_world :: world where
  "pdf_world = \<lparr>disk = [''uploads/3f9a'' \<mapsto> pdf_node], trace = []\<rparr>"

definition pdf_request :: request where
  "pdf_request = \<lparr>req_body = Some Map.empty, req_file = Some pdf_upload\<rparr>"

definition empty_world :: world where
  "empty_world = \<lparr>disk = Map.empty, trace = []\<rparr>"

text \<open>The same upload in a directory the process may not delete from.\<close>

definition locked_pdf_world :: "js_error \<Rightarrow> world" where
  "locked_pdf_world u =
     \<lparr>disk = [''uploads/3f9a'' \<mapsto> pdf_node\<lparr>unlink_fault := Some u\<rparr>], trace = []\<rparr>"

definition unreadable_node :: node where
  "unreadable_node = \<lparr>content = [77, 97],
     read_fault = Some \<lparr>name = ''Error'', message = ''EACCES: permission denied''\<rparr>,
     unlink_fault = None\<rparr>"

definition photo_upload :: file_info where
  "photo_upload = \<lparr>path = ''uploads/a01b'', mimetype = ''image/png'', size = 3\<rparr>"

definition photo_request :: "(string \<rightharpoonup> jsval) \<Rightarrow> request" where
  "photo_request form = \<lparr>req_body = Some form, req_file = Some photo_upload\<rparr>"

definition photo_world :: "node \<Rightarrow> world" where
  "photo_world nd = \<lparr>disk = [''uploads/a01b'' \<mapsto> nd], trace = []\<rparr>"

text \<open>Two providers: one that answers everything with \<open>t\<close>, one that always throws \<open>e\<close>.\<close>

definition answering :: "string \<Rightarrow> provider" where
  "answering t contents = Inr t"

definition failing :: "js_error \<Rightarrow> provider" where
  "failing e contents = Inl e"

text \<open>A provider that answers the prompt "hi" and throws on everything else.\<close>

definition only_hi :: provider where
  "only_hi contents =
     (if contents = JStr ''hi'' then Inr ''hello''
      else Inl \<lparr>name = ''Error'', message = ''no prompt''\<rparr>)"

text \<open>A five-byte upload (the bytes of "%PDF-"), and the first upload made unreadable.\<close>

definition report_node :: node where
  "report_node = \<lparr>content = [37, 80, 68, 70, 45], read_fault = None, unlink_fault = None\<rparr>"

definition report_world :: world where
  "report_world = \<lparr>disk = [''uploads/3f9a'' \<mapsto> report_node], trace = []\<rparr>"

definition unreadable_pdf_world :: world where
  "unreadable_pdf_world = \<lparr>disk = [''uploads/3f9a'' \<mapsto> unreadable_node], trace = []\<rparr>"

section \<open>Properties\<close>

lemmas fs_defs = emit_def readFileSync_def existsSync_def unlinkSync_def console_error_def
lemmas res_defs = res_json_def res_send_def generateContent_def
lemmas sample_defs = pdf_upload_def pdf_node_def pdf_world_def pdf_request_def empty_world_def
  locked_pdf_world_def
  unreadable_node_def photo_upload_def photo_request_def photo_world_def answering_def
  failing_def report_node_def report_world_def unreadable_pdf_world_def

subsection \<open>Base64\<close>

lemma toString_base64_examples:
  "toString_base64 [77, 97, 110] = ''TWFu''"
  "toString_base64 [77, 97] = ''TWE=''"
  "toString_base64 [77] = ''TQ==''"
  by (simp_all add: b64_char_def b64_alphabet_def)

lemma toString_base64_length:
  "length (toString_base64 bs) = 4 * ((length bs + 2) div 3)"
proof (induction bs rule: toString_base64.induct)
  case (1 a b c rest)
  have "(length rest + 5) div 3 = Suc ((length rest + 2) div 3)" by presburger
  with 1 show ?case by (simp add: Let_def add.commute)
qed (simp_all add: Let_def)

lemma b64_char_in_alphabet: "k < 64 \<Longrightarrow> b64_char k \<in> set b64_alphabet"
  unfolding b64_char_def by (rule nth_mem) (simp add: b64_alphabet_def)

lemma byte_bound: "unat (a :: 8 word) < 256"
  using unsigned_less [of a] by simp

text \<open>Every index into the alphabet is in range: the output has no unspecified character.\<close>

lemma toString_base64_alphabet:
  "set (toString_base64 bs) \<subseteq> set b64_alphabet \<union> {CHR ''=''}"
proof (induction bs rule: toString_base64.induct)
  case (1 a b c rest)
  have "unat a * 65536 + unat b * 256 + unat c < 16777216"
    using byte_bound [of a] byte_bound [of b] byte_bound [of c] by linarith
  then have "(unat a * 65536 + unat b * 256 + unat c) div 262144 < 64" by linarith
  with 1 show ?case by (auto simp add: Let_def intro!: b64_char_in_alphabet)
next
  case (2 a b)
  have "unat a * 65536 + unat b * 256 < 16777216"
    using byte_bound [of a] byte_bound [of b] by linarith
  then have "(unat a * 65536 + unat b * 256) div 262144 < 64" by linarith
  then show ?case by (auto simp add: Let_def intro!: b64_char_in_alphabet)
next
  case (3 a)
  have "unat a * 65536 < 16777216"
    using byte_bound [of a] by linarith
  then have "(unat a * 65536) div 262144 < 64" by linarith
  then show ?case by (auto simp add: Let_def intro!: b64_char_in_alphabet)
next
  case 4
  show ?case by simp
qed

subsection \<open>Base64: the encoder against RFC 4648\<close>

lemma rfc4648_char_table: "map rfc4648_char [0..<64] = b64_alphabet"
  by code_simp

lemma rfc4648_char_eq: "k < 64 \<Longrightarrow> rfc4648_char k = b64_char k"
proof -
  assume k: "k < 64"
  then have "map rfc4648_char [0..<64] ! k = rfc4648_char k"
    by (simp del: upt_Suc)
  then show ?thesis by (simp only: rfc4648_char_table b64_char_def)
qed

lemma byte_value: "unat (a :: 8 word) =
   128 * of_bool (bit a 7) + 64 * of_bool (bit a 6) + 32 * of_bool (bit a 5) + 16 * of_bool (bit a 4)
   + 8 * of_bool (bit a 3) + 4 * of_bool (bit a 2) + 2 * of_bool (bit a 1) + of_bool (bit a 0)"
proof -
  have "unat a = take_bit 8 (unat a)"
    using byte_bound [of a] by (simp add: take_bit_nat_eq_self)
  also have "\<dots> = horner_sum of_bool 2 (map (bit (unat a)) [0..<8])"
    by (simp only: horner_sum_bit_eq_take_bit)
  also have "[0..<8] = [0, 1, 2, 3, 4, 5, 6, 7 :: nat]"
    by (simp add: upt_rec)
  finally show ?thesis
    by (simp add: bit_unsigned_iff)
qed


lemma bits_value_append:
  "bits_value (xs @ ys) = bits_value xs * 2 ^ length ys + bits_value ys"
  by (induction xs) (simp_all add: power_add algebra_simps)

lemma mod_of_sum: "r < (m::nat) \<Longrightarrow> (q * m + r) mod m = r"
  by simp

lemma chunk3:
  "map (\<lambda>g. rfc4648_char (bits_value g)) (sextets (byte_bits a @ byte_bits b @ byte_bits c @ tl_bits)) =
   (let n = unat a * 65536 + unat b * 256 + unat c in
      [b64_char (n div 262144), b64_char (n div 4096 mod 64),
       b64_char (n div 64 mod 64), b64_char (n mod 64)])
   @ map (\<lambda>g. rfc4648_char (bits_value g)) (sextets tl_bits)"
proof -
  define a7 a6 a5 a4 a3 a2 a1 a0 :: nat where
    "a7 = of_bool (bit a 7)" and "a6 = of_bool (bit a 6)" and "a5 = of_bool (bit a 5)" and
    "a4 = of_bool (bit a 4)" and "a3 = of_bool (bit a 3)" and "a2 = of_bool (bit a 2)" and
    "a1 = of_bool (bit a 1)" and "a0 = of_bool (bit a 0)"
  define b7 b6 b5 b4 b3 b2 b1 b0 :: nat where
    "b7 = of_bool (bit b 7)" and "b6 = of_bool (bit b 6)" and "b5 = of_bool (bit b 5)" and
    "b4 = of_bool (bit b 4)" and "b3 = of_bool (bit b 3)" and "b2 = of_bool (bit b 2)" and
    "b1 = of_bool (bit b 1)" and "b0 = of_bool (bit b 0)"
  define c7 c6 c5 c4 c3 c2 c1 c0 :: nat where
    "c7 = of_bool (bit c 7)" and "c6 = of_bool (bit c 6)" and "c5 = of_bool (bit c 5)" and
    "c4 = of_bool (bit c 4)" and "c3 = of_bool (bit c 3)" and "c2 = of_bool (bit c 2)" and
    "c1 = of_bool (bit c 1)" and "c0 = of_bool (bit c 0)"
  note defs = a7_def a6_def a5_def a4_def a3_def a2_def a1_def a0_def
    b7_def b6_def b5_def b4_def b3_def b2_def b1_def b0_def
    c7_def c6_def c5_def c4_def c3_def c2_def c1_def c0_def
  have bounds: "a7 \<le> 1" "a6 \<le> 1" "a5 \<le> 1" "a4 \<le> 1" "a3 \<le> 1" "a2 \<le> 1" "a1 \<le> 1" "a0 \<le> 1"
    "b7 \<le> 1" "b6 \<le> 1" "b5 \<le> 1" "b4 \<le> 1" "b3 \<le> 1" "b2 \<le> 1" "b1 \<le> 1" "b0 \<le> 1"
    "c7 \<le> 1" "c6 \<le> 1" "c5 \<le> 1" "c4 \<le> 1" "c3 \<le> 1" "c2 \<le> 1" "c1 \<le> 1" "c0 \<le> 1"
    by (simp_all add: defs)
  define s1 s2 s3 s4 where
    "s1 = 32 * a7 + 16 * a6 + 8 * a5 + 4 * a4 + 2 * a3 + a2" and
    "s2 = 32 * a1 + 16 * a0 + 8 * b7 + 4 * b6 + 2 * b5 + b4" and
    "s3 = 32 * b3 + 16 * b2 + 8 * b1 + 4 * b0 + 2 * c7 + c6" and
    "s4 = 32 * c5 + 16 * c4 + 8 * c3 + 4 * c2 + 2 * c1 + c0"
  define n where "n = unat a * 65536 + unat b * 256 + unat c"
  have s_lt: "s1 < 64" "s2 < 64" "s3 < 64" "s4 < 64"
    using bounds by (simp_all add: s1_def s2_def s3_def s4_def)
  have n_eq: "n = s1 * 262144 + s2 * 4096 + s3 * 64 + s4"
    by (simp add: n_def byte_value [of a] byte_value [of b] byte_value [of c]
        s1_def s2_def s3_def s4_def defs)
  have d1: "n div 262144 = s1"
    by (rule div_nat_eqI) (use n_eq s_lt in simp_all)
  have q2: "n div 4096 = s1 * 64 + s2"
    by (rule div_nat_eqI) (use n_eq s_lt in simp_all)
  have d2: "n div 4096 mod 64 = s2"
    by (simp only: q2 mod_of_sum [OF s_lt(2)])
  have q3: "n div 64 = (s1 * 64 + s2) * 64 + s3"
    by (rule div_nat_eqI) (use n_eq s_lt in simp_all)
  have d3: "n div 64 mod 64 = s3"
    by (simp only: q3 mod_of_sum [OF s_lt(3)])
  have q4: "n = ((s1 * 64 + s2) * 64 + s3) * 64 + s4" using n_eq by simp
  have d4: "n mod 64 = s4"
    by (subst q4) (simp only: mod_of_sum [OF s_lt(4)])
  have g: "bits_value [bit a 7, bit a 6, bit a 5, bit a 4, bit a 3, bit a 2] = s1"
    "bits_value [bit a 1, bit a 0, bit b 7, bit b 6, bit b 5, bit b 4] = s2"
    "bits_value [bit b 3, bit b 2, bit b 1, bit b 0, bit c 7, bit c 6] = s3"
    "bits_value [bit c 5, bit c 4, bit c 3, bit c 2, bit c 1, bit c 0] = s4"
    by (simp_all add: s1_def s2_def s3_def s4_def defs)
  have sx: "sextets (byte_bits a @ byte_bits b @ byte_bits c @ tl_bits) =
      [bit a 7, bit a 6, bit a 5, bit a 4, bit a 3, bit a 2] #
      [bit a 1, bit a 0, bit b 7, bit b 6, bit b 5, bit b 4] #
      [bit b 3, bit b 2, bit b 1, bit b 0, bit c 7, bit c 6] #
      [bit c 5, bit c 4, bit c 3, bit c 2, bit c 1, bit c 0] # sextets tl_bits"
    by (simp add: byte_bits_def)
  show ?thesis
    unfolding Let_def n_def [symmetric] d1 d2 d3 d4 sx
    by (simp only: list.map g rfc4648_char_eq [OF s_lt(1)] rfc4648_char_eq [OF s_lt(2)]
        rfc4648_char_eq [OF s_lt(3)] rfc4648_char_eq [OF s_lt(4)] append.simps)
qed


lemma chunk2:
  "map (\<lambda>g. rfc4648_char (bits_value g)) (sextets (byte_bits a @ byte_bits b)) =
   (let n = unat a * 65536 + unat b * 256 in
      [b64_char (n div 262144), b64_char (n div 4096 mod 64), b64_char (n div 64 mod 64)])"
proof -
  define a7 a6 a5 a4 a3 a2 a1 a0 :: nat where
    "a7 = of_bool (bit a 7)" and "a6 = of_bool (bit a 6)" and "a5 = of_bool (bit a 5)" and
    "a4 = of_bool (bit a 4)" and "a3 = of_bool (bit a 3)" and "a2 = of_bool (bit a 2)" and
    "a1 = of_bool (bit a 1)" and "a0 = of_bool (bit a 0)"
  define b7 b6 b5 b4 b3 b2 b1 b0 :: nat where
    "b7 = of_bool (bit b 7)" and "b6 = of_bool (bit b 6)" and "b5 = of_bool (bit b 5)" and
    "b4 = of_bool (bit b 4)" and "b3 = of_bool (bit b 3)" and "b2 = of_bool (bit b 2)" and
    "b1 = of_bool (bit b 1)" and "b0 = of_bool (bit b 0)"
  note defs = a7_def a6_def a5_def a4_def a3_def a2_def a1_def a0_def
    b7_def b6_def b5_def b4_def b3_def b2_def b1_def b0_def
  have bounds: "a7 \<le> 1" "a6 \<le> 1" "a5 \<le> 1" "a4 \<le> 1" "a3 \<le> 1" "a2 \<le> 1" "a1 \<le> 1" "a0 \<le> 1"
    "b7 \<le> 1" "b6 \<le> 1" "b5 \<le> 1" "b4 \<le> 1" "b3 \<le> 1" "b2 \<le> 1" "b1 \<le> 1" "b0 \<le> 1"
    by (simp_all add: defs)
  define s1 s2 s3 where
    "s1 = 32 * a7 + 16 * a6 + 8 * a5 + 4 * a4 + 2 * a3 + a2" and
    "s2 = 32 * a1 + 16 * a0 + 8 * b7 + 4 * b6 + 2 * b5 + b4" and
    "s3 = 32 * b3 + 16 * b2 + 8 * b1 + 4 * b0"
  define n where "n = unat a * 65536 + unat b * 256"
  have s_lt: "s1 < 64" "s2 < 64" "s3 < 64"
    using bounds by (simp_all add: s1_def s2_def s3_def)
  have n_eq: "n = s1 * 262144 + s2 * 4096 + s3 * 64"
    by (simp add: n_def byte_value [of a] byte_value [of b] s1_def s2_def s3_def defs)
  have d1: "n div 262144 = s1"
    by (rule div_nat_eqI) (use n_eq s_lt in simp_all)
  have q2: "n div 4096 = s1 * 64 + s2"
    by (rule div_nat_eqI) (use n_eq s_lt in simp_all)
  have d2: "n div 4096 mod 64 = s2"
    by (simp only: q2 mod_of_sum [OF s_lt(2)])
  have q3: "n div 64 = (s1 * 64 + s2) * 64 + s3"
    by (rule div_nat_eqI) (use n_eq s_lt in simp_all)
  have d3: "n div 64 mod 64 = s3"
    by (simp only: q3 mod_of_sum [OF s_lt(3)])
  have g: "bits_value [bit a 7, bit a 6, bit a 5, bit a 4, bit a 3, bit a 2] = s1"
    "bits_value [bit a 1, bit a 0, bit b 7, bit b 6, bit b 5, bit b 4] = s2"
    "bits_value [bit b 3, bit b 2, bit b 1, bit b 0, False, False] = s3"
    by (simp_all add: s1_def s2_def s3_def defs)
  have sx: "sextets (byte_bits a @ byte_bits b) =
      [[bit a 7, bit a 6, bit a 5, bit a 4, bit a 3, bit a 2],
       [bit a 1, bit a 0, bit b 7, bit b 6, bit b 5, bit b 4],
       [bit b 3, bit b 2, bit b 1, bit b 0, False, False]]"
    by (simp add: byte_bits_def numeral_eq_Suc)
  show ?thesis
    unfolding Let_def n_def [symmetric] d1 d2 d3 sx
    by (simp only: list.map g rfc4648_char_eq [OF s_lt(1)] rfc4648_char_eq [OF s_lt(2)]
        rfc4648_char_eq [OF s_lt(3)])
qed

lemma chunk1:
  "map (\<lambda>g. rfc4648_char (bits_value g)) (sextets (byte_bits a)) =
   (let n = unat a * 65536 in [b64_char (n div 262144), b64_char (n div 4096 mod 64)])"
proof -
  define a7 a6 a5 a4 a3 a2 a1 a0 :: nat where
    "a7 = of_bool (bit a 7)" and "a6 = of_bool (bit a 6)" and "a5 = of_bool (bit a 5)" and
    "a4 = of_bool (bit a 4)" and "a3 = of_bool (bit a 3)" and "a2 = of_bool (bit a 2)" and
    "a1 = of_bool (bit a 1)" and "a0 = of_bool (bit a 0)"
  note defs = a7_def a6_def a5_def a4_def a3_def a2_def a1_def a0_def
  have bounds: "a7 \<le> 1" "a6 \<le> 1" "a5 \<le> 1" "a4 \<le> 1" "a3 \<le> 1" "a2 \<le> 1" "a1 \<le> 1" "a0 \<le> 1"
    by (simp_all add: defs)
  define s1 s2 where
    "s1 = 32 * a7 + 16 * a6 + 8 * a5 + 4 * a4 + 2 * a3 + a2" and
    "s2 = 32 * a1 + 16 * a0"
  define n where "n = unat a * 65536"
  have s_lt: "s1 < 64" "s2 < 64"
    using bounds by (simp_all add: s1_def s2_def)
  have n_eq: "n = s1 * 262144 + s2 * 4096"
    by (simp add: n_def byte_value [of a] s1_def s2_def defs)
  have d1: "n div 262144 = s1"
    by (rule div_nat_eqI) (use n_eq s_lt in simp_all)
  have q2: "n div 4096 = s1 * 64 + s2"
    by (rule div_nat_eqI) (use n_eq s_lt in simp_all)
  have d2: "n div 4096 mod 64 = s2"
    by (simp only: q2 mod_of_sum [OF s_lt(2)])
  have g: "bits_value [bit a 7, bit a 6, bit a 5, bit a 4, bit a 3, bit a 2] = s1"
    "bits_value [bit a 1, bit a 0, False, False, False, False] = s2"
    by (simp_all add: s1_def s2_def defs)
  have sx: "sextets (byte_bits a) =
      [[bit a 7, bit a 6, bit a 5, bit a 4, bit a 3, bit a 2],
       [bit a 1, bit a 0, False, False, False, False]]"
    by (simp add: byte_bits_def numeral_eq_Suc)
  show ?thesis
    unfolding Let_def n_def [symmetric] d1 d2 sx
    by (simp only: list.map g rfc4648_char_eq [OF s_lt(1)] rfc4648_char_eq [OF s_lt(2)])
qed

text \<open>The encoder of the handlers is the encoder of the RFC, for every input.\<close>

lemma toString_base64_is_rfc4648: "toString_base64 bs = base64_rfc4648 bs"
proof (induction bs rule: toString_base64.induct)
  case (1 a b c rest)
  have pad: "(3 - length (a # b # c # rest) mod 3) mod 3 = (3 - length rest mod 3) mod 3"
    by simp
  have "base64_rfc4648 (a # b # c # rest) =
        map (\<lambda>g. rfc4648_char (bits_value g))
          (sextets (byte_bits a @ byte_bits b @ byte_bits c @ concat (map byte_bits rest)))
        @ replicate ((3 - length rest mod 3) mod 3) CHR ''=''"
    unfolding base64_rfc4648_def pad by simp
  also have "\<dots> = toString_base64 (a # b # c # rest)"
    unfolding chunk3 using 1 by (simp add: base64_rfc4648_def Let_def)
  finally show ?case by simp
next
  case (2 a b)
  show ?case
    unfolding base64_rfc4648_def using chunk2 [of a b] by (simp add: Let_def)
next
  case (3 a)
  show ?case
    unfolding base64_rfc4648_def using chunk1 [of a] by (simp add: Let_def numeral_2_eq_2)
next
  case 4
  show ?case by (simp add: base64_rfc4648_def)
qed

lemma rfc4648_test_vectors:
  "base64_rfc4648 [] = []"
  "base64_rfc4648 [102] = ''Zg==''"
  "base64_rfc4648 [102, 111] = ''Zm8=''"
  "base64_rfc4648 [102, 111, 111] = ''Zm9v''"
  "base64_rfc4648 [102, 111, 111, 98] = ''Zm9vYg==''"
  "base64_rfc4648 [102, 111, 111, 98, 97] = ''Zm9vYmE=''"
  "base64_rfc4648 [102, 111, 111, 98, 97, 114] = ''Zm9vYmFy''"
  "base64_rfc4648 [255, 239, 190] = ''/+++''"
  "base64_rfc4648 [0, 16, 131] = ''ABCD''"
  by code_simp+

lemma report_base64: "base64_rfc4648 [37, 80, 68, 70, 45] = ''JVBERi0=''"
  by code_simp

subsection \<open>The finally block\<close>

lemma release_absent:
  "disk w p = None \<Longrightarrow> release (Some f) p w = (None, emit (Exists p) w)"
  by (simp add: release_def existsSync_def)

lemma release_deletes:
  "disk w p = Some nd \<Longrightarrow> unlink_fault nd = None \<Longrightarrow>
   release (Some f) p w =
     (None, w\<lparr>disk := (disk w)(p := None), trace := trace w @ [Exists p, Unlink p]\<rparr>)"
  by (simp add: release_def existsSync_def unlinkSync_def emit_def)

text \<open>A deletion the system refuses leaves the file and throws out of the block.\<close>

lemma release_fault:
  "disk w p = Some nd \<Longrightarrow> unlink_fault nd = Some u \<Longrightarrow>
   release (Some f) p w = (Some u, w\<lparr>trace := trace w @ [Exists p, Unlink p]\<rparr>)"
  by (simp add: release_def existsSync_def unlinkSync_def emit_def)

subsection \<open>The try and catch blocks of the document and audio handlers\<close>

lemma document_stage:
  assumes "disk w p = Some nd" and "read_fault nd = None"
    and "contents = JArr [JStr ''Analyze this document:'',
                          inlineData (toString_base64 (content nd)) (mimetype f)]"
  shows "(case document_try model f p w of
            (Inr r, w1) \<Rightarrow> (r, w1) | (Inl e, w1) \<Rightarrow> document_catch e w1) =
         (case model contents of
            Inr t \<Rightarrow> (\<lparr>status = 200, payload = Json (JObj [(''output'', JStr t)])\<rparr>,
                      w\<lparr>trace := trace w @ [ReadFile p, Generate contents]\<rparr>)
          | Inl e \<Rightarrow> (\<lparr>status = 500, payload = Json (JObj [(''error'', JStr (message e))])\<rparr>,
                      w\<lparr>trace := trace w @ [ReadFile p, Generate contents,
                                              ConsoleError ''Error processing document:'' e]\<rparr>))"
  using assms
  by (cases "model contents")
     (simp_all add: document_try_def document_catch_def readFileSync_def generateContent_def
        console_error_def emit_def res_json_def)

lemma audio_stage:
  assumes "disk w p = Some nd" and "read_fault nd = None"
    and "contents = JArr [JStr ''Transcribe or analyze the following audio:'',
                          inlineData (toString_base64 (content nd)) (mimetype f)]"
  shows "(case audio_try model f p w of
            (Inr r, w1) \<Rightarrow> (r, w1) | (Inl e, w1) \<Rightarrow> audio_catch e w1) =
         (case model contents of
            Inr t \<Rightarrow> (\<lparr>status = 200, payload = Json (JObj [(''output'', JStr t)])\<rparr>,
                      w\<lparr>trace := trace w @ [ReadFile p, Generate contents]\<rparr>)
          | Inl e \<Rightarrow> (\<lparr>status = 500, payload = Json (JObj [(''error'', JStr (message e))])\<rparr>,
                      w\<lparr>trace := trace w @ [ReadFile p, Generate contents,
                                              ConsoleError ''Error processing audio:'' e]\<rparr>))"
  using assms
  by (cases "model contents")
     (simp_all add: audio_try_def audio_catch_def readFileSync_def generateContent_def
        console_error_def emit_def res_json_def)

lemma document_stage_unreadable:
  assumes "fst (readFileSync p w) = Inl e"
  shows "(case document_try model f p w of
            (Inr r, w1) \<Rightarrow> (r, w1) | (Inl e, w1) \<Rightarrow> document_catch e w1) =
         (\<lparr>status = 500, payload = Json (JObj [(''error'', JStr (message e))])\<rparr>,
          w\<lparr>trace := trace w @ [ReadFile p, ConsoleError ''Error processing document:'' e]\<rparr>)"
  using assms
  by (auto simp add: document_try_def document_catch_def readFileSync_def
        console_error_def emit_def res_json_def Let_def split: option.splits)

lemma audio_stage_unreadable:
  assumes "fst (readFileSync p w) = Inl e"
  shows "(case audio_try model f p w of
            (Inr r, w1) \<Rightarrow> (r, w1) | (Inl e, w1) \<Rightarrow> audio_catch e w1) =
         (\<lparr>status = 500, payload = Json (JObj [(''error'', JStr (message e))])\<rparr>,
          w\<lparr>trace := trace w @ [ReadFile p, ConsoleError ''Error processing audio:'' e]\<rparr>)"
  using assms
  by (auto simp add: audio_try_def audio_catch_def readFileSync_def
        console_error_def emit_def res_json_def Let_def split: option.splits)

text \<open>
  In the document and audio handlers the read is inside the \<^verbatim>\<open>try\<close>: a file that cannot
  be read is answered with 500 and the error's message.
\<close>

lemma document_unreadable_500:
  assumes "req_file req = Some f" and "fst (readFileSync (path f) w) = Inl e"
  shows "resp (generate_from_document model req w) =
           Some \<lparr>status = 500, payload = Json (JObj [(''error'', JStr (message e))])\<rparr>"
  using assms(1)
  by (simp add: generate_from_document_def Let_def document_stage_unreadable [OF assms(2)]
      split: prod.splits)

lemma audio_unreadable_500:
  assumes "req_file req = Some f" and "fst (readFileSync (path f) w) = Inl e"
  shows "resp (generate_from_audio model req w) =
           Some \<lparr>status = 500, payload = Json (JObj [(''error'', JStr (message e))])\<rparr>"
  using assms(1)
  by (simp add: generate_from_audio_def Let_def audio_stage_unreadable [OF assms(2)]
      split: prod.splits)

text \<open>The response of these two handlers does not depend on whether the deletion can succeed.\<close>

lemma document_response_ignores_unlink_fault:
  assumes "req_file req = Some f" and "disk w (path f) = Some nd"
  shows "resp (generate_from_document model req
                 (w\<lparr>disk := (disk w)(path f \<mapsto> nd\<lparr>unlink_fault := u\<rparr>)\<rparr>)) =
         resp (generate_from_document model req w)"
  using assms
  by (auto simp add: generate_from_document_def document_try_def document_catch_def
        readFileSync_def generateContent_def console_error_def emit_def Let_def
        split: option.splits sum.splits prod.splits)

lemma audio_response_ignores_unlink_fault:
  assumes "req_file req = Some f" and "disk w (path f) = Some nd"
  shows "resp (generate_from_audio model req
                 (w\<lparr>disk := (disk w)(path f \<mapsto> nd\<lparr>unlink_fault := u\<rparr>)\<rparr>)) =
         resp (generate_from_audio model req w)"
  using assms
  by (auto simp add: generate_from_audio_def audio_try_def audio_catch_def
        readFileSync_def generateContent_def console_error_def emit_def Let_def
        split: option.splits sum.splits prod.splits)

text \<open>The values \<^verbatim>\<open>||\<close> replaces by its right operand.\<close>

lemma falsy_values:
  "(\<not> truthy v) = (v \<in> {JUndefined, JNull, JBool False, JNum NaN, JNum (Finite 0), JStr []})"
proof (cases v)
  case (JNum n)
  then show ?thesis by (cases n) auto
qed auto

subsection \<open>Requests without a file\<close>

lemma document_without_file_400:
  "req_file req = None \<Longrightarrow>
   generate_from_document model req w =
     \<lparr>resp = Some \<lparr>status = 400, payload = Text ''No document file uploaded.''\<rparr>,
      uncaught = None, final = w\<rparr>"
  by (simp add: generate_from_document_def res_defs)

lemma audio_without_file_400:
  "req_file req = None \<Longrightarrow>
   generate_from_audio model req w =
     \<lparr>resp = Some \<lparr>status = 400, payload = Text ''No audio file uploaded.''\<rparr>,
      uncaught = None, final = w\<rparr>"
  by (simp add: generate_from_audio_def res_defs)

lemma image_without_file_400:
  "req_file req = None \<Longrightarrow> req_body req = Some b \<Longrightarrow>
   generate_from_image model req w =
     \<lparr>resp = Some \<lparr>status = 400, payload = Text ''No image file uploaded.''\<rparr>,
      uncaught = None, final = w\<rparr>"
  by (simp add: generate_from_image_def generate_from_image_with_def image_prompt_def res_defs)

text \<open>On an undefined body the text handler throws as well, before its \<^verbatim>\<open>try\<close>.\<close>

lemma generate_text_without_body:
  "req_body req = None \<Longrightarrow>
   generate_text model req w =
     \<lparr>resp = None, uncaught = Some (cannot_destructure ''prompt'' ''req.body''), final = w\<rparr>"
  by (simp add: generate_text_def)

subsection \<open>The claims\<close>

text \<open>
  C1, as amended. In the document and the audio handler, for an upload that is on disk,
  readable and deletable: when the provider call throws \<open>e\<close>, the response is 500 with
  the JSON body \<open>{error: e.message}\<close>, the message relayed as it is; and whatever the
  provider does, answer or throw, the uploaded file is gone from the disk afterwards,
  every other file is as before, and no exception leaves the handler.
\<close>

theorem provider_failure_relayed_and_cleaned:
  assumes "req_file req = Some f"
    and "disk w (path f) = Some nd"
    and "read_fault nd = None"
    and "unlink_fault nd = None"
    and "doc = JArr [JStr ''Analyze this document:'',
                     inlineData (toString_base64 (content nd)) (mimetype f)]"
    and "aud = JArr [JStr ''Transcribe or analyze the following audio:'',
                     inlineData (toString_base64 (content nd)) (mimetype f)]"
  shows "(model doc = Inl e \<longrightarrow>
            resp (generate_from_document model req w) =
              Some \<lparr>status = 500, payload = Json (JObj [(''error'', JStr (message e))])\<rparr>)
       \<and> (model aud = Inl e \<longrightarrow>
            resp (generate_from_audio model req w) =
              Some \<lparr>status = 500, payload = Json (JObj [(''error'', JStr (message e))])\<rparr>)
       \<and> disk (final (generate_from_document model req w)) = (disk w)(path f := None)
       \<and> disk (final (generate_from_audio model req w)) = (disk w)(path f := None)
       \<and> uncaught (generate_from_document model req w) = None
       \<and> uncaught (generate_from_audio model req w) = None"
proof -
  have d: "model doc = Inl e \<longrightarrow>
            resp (generate_from_document model req w) =
              Some \<lparr>status = 500, payload = Json (JObj [(''error'', JStr (message e))])\<rparr>"
    using assms(1)
    by (simp add: generate_from_document_def Let_def document_stage [OF assms(2,3,5)]
        split: prod.splits)
  have a: "model aud = Inl e \<longrightarrow>
            resp (generate_from_audio model req w) =
              Some \<lparr>status = 500, payload = Json (JObj [(''error'', JStr (message e))])\<rparr>"
    using assms(1)
    by (simp add: generate_from_audio_def Let_def audio_stage [OF assms(2,3,6)]
        split: prod.splits)
  have dd: "disk (final (generate_from_document model req w)) = (disk w)(path f := None)
          \<and> uncaught (generate_from_document model req w) = None"
    using assms(1,2,4)
    by (cases "model doc")
       (simp_all add: generate_from_document_def Let_def document_stage [OF assms(2,3,5)]
          release_deletes)
  have da: "disk (final (generate_from_audio model req w)) = (disk w)(path f := None)
          \<and> uncaught (generate_from_audio model req w) = None"
    using assms(1,2,4)
    by (cases "model aud")
       (simp_all add: generate_from_audio_def Let_def audio_stage [OF assms(2,3,6)]
          release_deletes)
  from d a dd da show ?thesis by blast
qed

theorem provider_failure_relayed_and_cleaned_witness:
  "resp (generate_from_document (failing \<lparr>name = ''Error'', message = ''quota exceeded''\<rparr>)
           pdf_request pdf_world) =
     Some \<lparr>status = 500, payload = Json (JObj [(''error'', JStr ''quota exceeded'')])\<rparr>
   \<and> resp (generate_from_audio (failing \<lparr>name = ''Error'', message = ''quota exceeded''\<rparr>)
           pdf_request pdf_world) =
     Some \<lparr>status = 500, payload = Json (JObj [(''error'', JStr ''quota exceeded'')])\<rparr>
   \<and> disk (final (generate_from_document (failing \<lparr>name = ''Error'', message = ''quota exceeded''\<rparr>)
                   pdf_request pdf_world)) ''uploads/3f9a'' = None
   \<and> disk (final (generate_from_audio (failing \<lparr>name = ''Error'', message = ''quota exceeded''\<rparr>)
                   pdf_request pdf_world)) ''uploads/3f9a'' = None
   \<and> uncaught (generate_from_document (failing \<lparr>name = ''Error'', message = ''quota exceeded''\<rparr>)
                pdf_request pdf_world) = None
   \<and> uncaught (generate_from_audio (failing \<lparr>name = ''Error'', message = ''quota exceeded''\<rparr>)
                pdf_request pdf_world) = None"
  using provider_failure_relayed_and_cleaned [of pdf_request pdf_upload pdf_world pdf_node
      "JArr [JStr ''Analyze this document:'',
             inlineData (toString_base64 (content pdf_node)) (mimetype pdf_upload)]"
      "JArr [JStr ''Transcribe or analyze the following audio:'',
             inlineData (toString_base64 (content pdf_node)) (mimetype pdf_upload)]"
      "failing \<lparr>name = ''Error'', message = ''quota exceeded''\<rparr>"
      "\<lparr>name = ''Error'', message = ''quota exceeded''\<rparr>"]
  by (simp add: sample_defs)

text \<open>
  C1 as stated promises a non-empty message. The handler relays the message of whatever
  the provider threw: for \<^verbatim>\<open>new Error("")\<close> the \<open>error\<close> field is the empty string.
\<close>

theorem provider_failure_empty_message_counterexample:
  "resp (generate_from_document (failing \<lparr>name = ''Error'', message = []\<rparr>)
           pdf_request pdf_world) =
     Some \<lparr>status = 500, payload = Json (JObj [(''error'', JStr [])])\<rparr>"
  by (simp add: generate_from_document_def Let_def document_try_def document_catch_def release_def
      fs_defs res_defs sample_defs)

text \<open>
  C2. POST /generate-from-image with a file: the handler evaluates the identifier
  \<^verbatim>\<open>fileToGenerativePart\<close>, which the program does not define, before its \<^verbatim>\<open>try\<close>. The
  ReferenceError leaves the handler: it sends no response (neither the 200 nor the 500),
  and the world is exactly as before, so the \<^verbatim>\<open>finally\<close> block has not run and the
  provider has not been called. (A request with a file has a body object; were it
  undefined, line 37 would throw first, with the same absence of response and effects.)
\<close>

theorem image_upload_faults_before_try:
  assumes "req_file req = Some f"
  shows "fileToGenerativePart = None
       \<and> resp (generate_from_image model req w) = None
       \<and> final (generate_from_image model req w) = w
       \<and> (req_body req = Some b \<longrightarrow>
            generate_from_image model req w =
              \<lparr>resp = None,
               uncaught = Some \<lparr>name = ''ReferenceError'',
                                message = ''fileToGenerativePart is not defined''\<rparr>,
               final = w\<rparr>)"
  using assms
  by (cases "req_body req")
     (simp_all add: generate_from_image_def generate_from_image_with_def fileToGenerativePart_def
        reference_error_def image_prompt_def)

theorem image_upload_faults_before_try_witness:
  "fileToGenerativePart = None
   \<and> generate_from_image (answering ''A cat.'') (photo_request Map.empty) (photo_world pdf_node) =
       \<lparr>resp = None,
        uncaught = Some \<lparr>name = ''ReferenceError'',
                         message = ''fileToGenerativePart is not defined''\<rparr>,
        final = photo_world pdf_node\<rparr>"
  using image_upload_faults_before_try [of "photo_request Map.empty" photo_upload
      "answering ''A cat.''" "photo_world pdf_node" Map.empty]
  by (simp add: photo_request_def)

text \<open>
  C3 says that each of the three upload endpoints answers a request without a file with
  400 and touches nothing. The document and audio handlers do, for every such request
  (\<open>document_without_file_400\<close>, \<open>audio_without_file_400\<close>), and the image handler does
  when the request has a body object (\<open>image_without_file_400\<close>). But the image handler
  reads \<^verbatim>\<open>req.body.prompt\<close> before it tests for the file, outside any \<^verbatim>\<open>try\<close>: on a
  request that no parser accepted it throws a TypeError and sends no 400, where its two
  siblings answer 400.
\<close>

theorem image_without_body_sends_no_400:
  "generate_from_image (answering ''x'') \<lparr>req_body = None, req_file = None\<rparr> empty_world =
     \<lparr>resp = None, uncaught = Some (cannot_read_undefined ''prompt''), final = empty_world\<rparr>
   \<and> name (cannot_read_undefined ''prompt'') = ''TypeError''
   \<and> generate_from_document (answering ''x'') \<lparr>req_body = None, req_file = None\<rparr> empty_world =
     \<lparr>resp = Some \<lparr>status = 400, payload = Text ''No document file uploaded.''\<rparr>,
      uncaught = None, final = empty_world\<rparr>
   \<and> generate_from_audio (answering ''x'') \<lparr>req_body = None, req_file = None\<rparr> empty_world =
     \<lparr>resp = Some \<lparr>status = 400, payload = Text ''No audio file uploaded.''\<rparr>,
      uncaught = None, final = empty_world\<rparr>"
  by (simp add: generate_from_image_def generate_from_image_with_def image_prompt_def
      generate_from_document_def generate_from_audio_def res_defs cannot_read_undefined_def)

text \<open>
  C4 says that every upload handler answers an unreadable file with 500 and
  \<open>{error: message}\<close>. The document and audio handlers do (\<open>document_unreadable_500\<close>,
  \<open>audio_unreadable_500\<close>). The image handler does not: its encoding step is outside the
  \<^verbatim>\<open>try\<close> and calls an undefined function, so for an upload the system refuses to read
  it sends no response at all.
\<close>

theorem image_unreadable_upload_no_response:
  "generate_from_image (answering ''A cat.'') (photo_request Map.empty)
     (photo_world unreadable_node) =
     \<lparr>resp = None,
      uncaught = Some \<lparr>name = ''ReferenceError'',
                       message = ''fileToGenerativePart is not defined''\<rparr>,
      final = photo_world unreadable_node\<rparr>"
  by (simp add: generate_from_image_def generate_from_image_with_def fileToGenerativePart_def
      reference_error_def image_prompt_def photo_request_def)

text \<open>
  C5. POST /generate-text with a body: when the provider answers the body's prompt (or
  \<^verbatim>\<open>undefined\<close>, for a body without one) with the text \<open>t\<close>, the response is 200 with
  the JSON body \<open>{output: t}\<close>, \<open>t\<close> being the provider's text unchanged.
\<close>

theorem generate_text_success:
  assumes "req_body req = Some b"
  shows "(b ''prompt'' = Some p \<and> model p = Inr t \<longrightarrow>
            resp (generate_text model req w) =
              Some \<lparr>status = 200, payload = Json (JObj [(''output'', JStr t)])\<rparr>
          \<and> uncaught (generate_text model req w) = None)
       \<and> (b ''prompt'' = None \<and> model JUndefined = Inr t \<longrightarrow>
            resp (generate_text model req w) =
              Some \<lparr>status = 200, payload = Json (JObj [(''output'', JStr t)])\<rparr>
          \<and> uncaught (generate_text model req w) = None)"
  using assms by (simp add: generate_text_def get_prop_def res_defs)

theorem generate_text_success_witness:
  "resp (generate_text (\<lambda>c. if c = JStr ''hi'' then Inr ''hello''
                             else Inl \<lparr>name = ''Error'', message = ''no''\<rparr>)
           \<lparr>req_body = Some [''prompt'' \<mapsto> JStr ''hi''], req_file = None\<rparr> empty_world) =
     Some \<lparr>status = 200, payload = Json (JObj [(''output'', JStr ''hello'')])\<rparr>
   \<and> uncaught (generate_text (\<lambda>c. if c = JStr ''hi'' then Inr ''hello''
                                  else Inl \<lparr>name = ''Error'', message = ''no''\<rparr>)
           \<lparr>req_body = Some [''prompt'' \<mapsto> JStr ''hi''], req_file = None\<rparr> empty_world) = None"
  using generate_text_success [of "\<lparr>req_body = Some [''prompt'' \<mapsto> JStr ''hi''], req_file = None\<rparr>"
      "[''prompt'' \<mapsto> JStr ''hi'']" "JStr ''hi''"
      "\<lambda>c. if c = JStr ''hi'' then Inr ''hello'' else Inl \<lparr>name = ''Error'', message = ''no''\<rparr>"
      "''hello''" empty_world]
  by simp

text \<open>
  C6, as amended. POST /generate-from-document with an upload that is on disk, readable
  and deletable: the handler reads the file, then submits to the provider the
  two-element array of the text "Analyze this document:" and the inline part holding the
  base64 encoding (RFC 4648) of all the file's bytes and the uploaded mime type; that is
  its only provider call. When the provider answers \<open>t\<close>, the response is 200
  \<open>{output: t}\<close> and the uploaded file has been removed from the disk, all other files
  untouched.
\<close>

theorem document_upload_pipeline:
  assumes "req_file req = Some f"
    and "disk w (path f) = Some nd"
    and "read_fault nd = None"
    and "unlink_fault nd = None"
    and "contents = JArr [JStr ''Analyze this document:'',
                          JObj [(''inlineData'',
                                 JObj [(''data'', JStr (base64_rfc4648 (content nd))),
                                       (''mimeType'', JStr (mimetype f))])]]"
  shows "trace (final (generate_from_document model req w)) =
           trace w @ [ReadFile (path f), Generate contents]
             @ (case model contents of
                  Inr t \<Rightarrow> []
                | Inl e \<Rightarrow> [ConsoleError ''Error processing document:'' e])
             @ [Exists (path f), Unlink (path f)]
       \<and> (model contents = Inr t \<longrightarrow>
            resp (generate_from_document model req w) =
              Some \<lparr>status = 200, payload = Json (JObj [(''output'', JStr t)])\<rparr>
          \<and> uncaught (generate_from_document model req w) = None
          \<and> disk (final (generate_from_document model req w)) = (disk w)(path f := None))"
proof -
  have c: "contents = JArr [JStr ''Analyze this document:'',
                            inlineData (toString_base64 (content nd)) (mimetype f)]"
    using assms(5) by (simp add: inlineData_def toString_base64_is_rfc4648)
  show ?thesis
    using assms(1-4)
    by (cases "model contents")
       (simp_all add: generate_from_document_def Let_def document_stage [OF assms(2,3) c]
          release_deletes)
qed

theorem document_upload_pipeline_witness:
  "trace (final (generate_from_document (answering ''Summary: ...'') pdf_request report_world)) =
     [ReadFile ''uploads/3f9a'',
      Generate (JArr [JStr ''Analyze this document:'',
                      JObj [(''inlineData'', JObj [(''data'', JStr ''JVBERi0=''),
                                                   (''mimeType'', JStr ''application/pdf'')])]]),
      Exists ''uploads/3f9a'', Unlink ''uploads/3f9a'']
   \<and> resp (generate_from_document (answering ''Summary: ...'') pdf_request report_world) =
       Some \<lparr>status = 200, payload = Json (JObj [(''output'', JStr ''Summary: ...'')])\<rparr>
   \<and> uncaught (generate_from_document (answering ''Summary: ...'') pdf_request report_world) = None
   \<and> disk (final (generate_from_document (answering ''Summary: ...'') pdf_request report_world))
        ''uploads/3f9a'' = None"
  using document_upload_pipeline [of pdf_request pdf_upload report_world report_node
      "JArr [JStr ''Analyze this document:'',
             JObj [(''inlineData'', JObj [(''data'', JStr (base64_rfc4648 (content report_node))),
                                          (''mimeType'', JStr (mimetype pdf_upload))])]]"
      "answering ''Summary: ...''" "''Summary: ...''"]
  by (simp add: sample_defs report_base64)

text \<open>
  C6 as stated speaks of every request with a file attached. With the file unreadable,
  or gone from the disk, the handler makes no provider call and answers 500; with the
  file in a directory it may not delete from, it answers 200 but the file stays and the
  deletion error leaves the handler.
\<close>

theorem document_upload_pipeline_counterexample:
  "trace (final (generate_from_document (answering ''Summary: ...'') pdf_request
                   unreadable_pdf_world)) =
     [ReadFile ''uploads/3f9a'',
      ConsoleError ''Error processing document:''
        \<lparr>name = ''Error'', message = ''EACCES: permission denied''\<rparr>,
      Exists ''uploads/3f9a'', Unlink ''uploads/3f9a'']
   \<and> resp (generate_from_document (answering ''Summary: ...'') pdf_request unreadable_pdf_world) =
       Some \<lparr>status = 500,
             payload = Json (JObj [(''error'', JStr ''EACCES: permission denied'')])\<rparr>
   \<and> trace (final (generate_from_document (answering ''Summary: ...'') pdf_request empty_world)) =
       [ReadFile ''uploads/3f9a'',
        ConsoleError ''Error processing document:'' (enoent ''open'' ''uploads/3f9a''),
        Exists ''uploads/3f9a'']
   \<and> resp (generate_from_document (answering ''Summary: ...'') pdf_request
            (locked_pdf_world \<lparr>name = ''Error'', message = ''EPERM: operation not permitted''\<rparr>)) =
       Some \<lparr>status = 200, payload = Json (JObj [(''output'', JStr ''Summary: ...'')])\<rparr>
   \<and> disk (final (generate_from_document (answering ''Summary: ...'') pdf_request
            (locked_pdf_world \<lparr>name = ''Error'', message = ''EPERM: operation not permitted''\<rparr>)))
        ''uploads/3f9a'' =
       Some (pdf_node\<lparr>unlink_fault :=
               Some \<lparr>name = ''Error'', message = ''EPERM: operation not permitted''\<rparr>\<rparr>)
   \<and> uncaught (generate_from_document (answering ''Summary: ...'') pdf_request
            (locked_pdf_world \<lparr>name = ''Error'', message = ''EPERM: operation not permitted''\<rparr>)) =
       Some \<lparr>name = ''Error'', message = ''EPERM: operation not permitted''\<rparr>"
  by (simp add: generate_from_document_def Let_def document_try_def document_catch_def release_def
      fs_defs res_defs sample_defs inlineData_def)

text \<open>
  C7 says that with the \<open>prompt\<close> field omitted the instruction handed to the provider
  is "Describe the image". The handler does compute that default (line 37), but it never
  hands it to the provider: with an image attached and no prompt, the undefined
  \<^verbatim>\<open>fileToGenerativePart\<close> of line 45 throws before the call of line 49, and the handler
  ends without a provider call and without a response. (The document and audio handlers
  do reach their calls, with their own instruction texts.)
\<close>

theorem image_default_prompt_never_sent:
  "image_prompt (photo_request Map.empty) = Inr (JStr ''Describe the image'')
   \<and> trace (final (generate_from_image (answering ''A dog.'') (photo_request Map.empty)
                     (photo_world pdf_node))) = []
   \<and> resp (generate_from_image (answering ''A dog.'') (photo_request Map.empty)
             (photo_world pdf_node)) = None
   \<and> uncaught (generate_from_image (answering ''A dog.'') (photo_request Map.empty)
                 (photo_world pdf_node)) =
       Some \<lparr>name = ''ReferenceError'', message = ''fileToGenerativePart is not defined''\<rparr>"
  by (simp add: generate_from_image_def generate_from_image_with_def fileToGenerativePart_def
      reference_error_def image_prompt_def get_prop_def sample_defs)

text \<open>
  C8. The \<^verbatim>\<open>finally\<close> block. On a path with no file it only tests for existence: nothing is
  deleted, nothing is thrown. On a file the system lets it delete, it removes that file
  and no other and throws nothing, and running it again is the no-op just described. And
  in the document and audio handlers the response is the same whether or not the system
  refuses the deletion (with whatever error \<open>u\<close>), and a response there always is.
\<close>

theorem release_idempotent_nonmasking:
  "(disk w p = None \<longrightarrow> release (Some f) p w = (None, emit (Exists p) w))
   \<and> (disk w p = Some nd \<and> unlink_fault nd = None \<longrightarrow>
        fst (release (Some f) p w) = None
      \<and> disk (snd (release (Some f) p w)) = (disk w)(p := None)
      \<and> release (Some f) p (snd (release (Some f) p w)) =
          (None, emit (Exists p) (snd (release (Some f) p w))))
   \<and> (req_file req = Some f \<and> disk w (path f) = Some nd \<longrightarrow>
        resp (generate_from_document model req
                (w\<lparr>disk := (disk w)(path f \<mapsto> nd\<lparr>unlink_fault := u\<rparr>)\<rparr>)) =
          resp (generate_from_document model req w)
      \<and> resp (generate_from_audio model req
                (w\<lparr>disk := (disk w)(path f \<mapsto> nd\<lparr>unlink_fault := u\<rparr>)\<rparr>)) =
          resp (generate_from_audio model req w)
      \<and> resp (generate_from_document model req w) \<noteq> None
      \<and> resp (generate_from_audio model req w) \<noteq> None)"
proof -
  have a: "disk w p = None \<longrightarrow> release (Some f) p w = (None, emit (Exists p) w)"
    by (simp add: release_absent)
  have b: "disk w p = Some nd \<and> unlink_fault nd = None \<longrightarrow>
        fst (release (Some f) p w) = None
      \<and> disk (snd (release (Some f) p w)) = (disk w)(p := None)
      \<and> release (Some f) p (snd (release (Some f) p w)) =
          (None, emit (Exists p) (snd (release (Some f) p w)))"
    by (simp add: release_deletes release_absent)
  have c: "resp (generate_from_document model req w) \<noteq> None
         \<and> resp (generate_from_audio model req w) \<noteq> None"
    if "req_file req = Some f"
    using that
    by (simp add: generate_from_document_def generate_from_audio_def Let_def split: prod.splits)
  from a b c show ?thesis
    by (simp add: document_response_ignores_unlink_fault audio_response_ignores_unlink_fault)
qed

theorem release_idempotent_nonmasking_witness:
  "release (Some pdf_upload) ''uploads/3f9a'' empty_world =
     (None, \<lparr>disk = Map.empty, trace = [Exists ''uploads/3f9a'']\<rparr>)
   \<and> fst (release (Some pdf_upload) ''uploads/3f9a'' pdf_world) = None
   \<and> disk (snd (release (Some pdf_upload) ''uploads/3f9a'' pdf_world)) = Map.empty
   \<and> fst (release (Some pdf_upload) ''uploads/3f9a''
            (snd (release (Some pdf_upload) ''uploads/3f9a'' pdf_world))) = None
   \<and> resp (generate_from_document (answering ''ok'') pdf_request
            (locked_pdf_world \<lparr>name = ''Error'', message = ''EPERM: operation not permitted''\<rparr>)) =
       resp (generate_from_document (answering ''ok'') pdf_request pdf_world)
   \<and> resp (generate_from_audio (answering ''ok'') pdf_request
            (locked_pdf_world \<lparr>name = ''Error'', message = ''EPERM: operation not permitted''\<rparr>)) =
       resp (generate_from_audio (answering ''ok'') pdf_request pdf_world)
   \<and> resp (generate_from_document (answering ''ok'') pdf_request pdf_world) \<noteq> None
   \<and> resp (generate_from_audio (answering ''ok'') pdf_request pdf_world) \<noteq> None"
  using release_idempotent_nonmasking [of empty_world "''uploads/3f9a''" pdf_upload pdf_node
          pdf_request "answering ''ok''" None]
        release_idempotent_nonmasking [of pdf_world "''uploads/3f9a''" pdf_upload pdf_node
          pdf_request "answering ''ok''"
          "Some \<lparr>name = ''Error'', message = ''EPERM: operation not permitted''\<rparr>"]
  by (simp add: sample_defs emit_def)

text \<open>
  C9. POST /generate-text checks nothing: whatever the body holds, the handler makes
  one provider call, with the value \<open>v\<close> of the body's \<open>prompt\<close> property as it is, or
  with \<^verbatim>\<open>undefined\<close> when the body has no such property, touches nothing else, and
  answers 200 \<open>{output: t}\<close> when the provider answers \<open>t\<close> and 500 \<open>{error: e.message}\<close>
  when it throws \<open>e\<close>; the status is 200 or 500, never 400.
\<close>

theorem generate_text_no_validation:
  assumes "req_body req = Some b"
  shows "(b ''prompt'' = Some v \<longrightarrow>
            final (generate_text model req w) = w\<lparr>trace := trace w @ [Generate v]\<rparr>
          \<and> resp (generate_text model req w) =
              Some (case model v of
                      Inr t \<Rightarrow> \<lparr>status = 200, payload = Json (JObj [(''output'', JStr t)])\<rparr>
                    | Inl e \<Rightarrow> \<lparr>status = 500,
                                payload = Json (JObj [(''error'', JStr (message e))])\<rparr>))
       \<and> (b ''prompt'' = None \<longrightarrow>
            final (generate_text model req w) = w\<lparr>trace := trace w @ [Generate JUndefined]\<rparr>
          \<and> resp (generate_text model req w) =
              Some (case model JUndefined of
                      Inr t \<Rightarrow> \<lparr>status = 200, payload = Json (JObj [(''output'', JStr t)])\<rparr>
                    | Inl e \<Rightarrow> \<lparr>status = 500,
                                payload = Json (JObj [(''error'', JStr (message e))])\<rparr>))
       \<and> uncaught (generate_text model req w) = None
       \<and> (\<exists>r. resp (generate_text model req w) = Some r \<and> (status r = 200 \<or> status r = 500))"
proof -
  let ?x = "get_prop b ''prompt''"
  have m1: "final (generate_text model req w) = w\<lparr>trace := trace w @ [Generate ?x]\<rparr>"
    using assms by (cases "model ?x") (simp_all add: generate_text_def res_defs emit_def)
  have m2: "resp (generate_text model req w) =
      Some (case model ?x of
              Inr t \<Rightarrow> \<lparr>status = 200, payload = Json (JObj [(''output'', JStr t)])\<rparr>
            | Inl e \<Rightarrow> \<lparr>status = 500, payload = Json (JObj [(''error'', JStr (message e))])\<rparr>)"
    using assms by (cases "model ?x") (simp_all add: generate_text_def res_defs)
  have m3: "uncaught (generate_text model req w) = None"
    using assms by (cases "model ?x") (simp_all add: generate_text_def res_defs)
  have m4: "\<exists>r. resp (generate_text model req w) = Some r \<and> (status r = 200 \<or> status r = 500)"
    unfolding m2 by (cases "model ?x") simp_all
  show ?thesis
  proof (cases "b ''prompt''")
    case None
    with m1 m2 have "final (generate_text model req w) = w\<lparr>trace := trace w @ [Generate JUndefined]\<rparr>"
      and "resp (generate_text model req w) =
      Some (case model JUndefined of
              Inr t \<Rightarrow> \<lparr>status = 200, payload = Json (JObj [(''output'', JStr t)])\<rparr>
            | Inl e \<Rightarrow> \<lparr>status = 500, payload = Json (JObj [(''error'', JStr (message e))])\<rparr>)"
      by (simp_all add: get_prop_def)
    with None m3 m4 show ?thesis by simp
  next
    case (Some a)
    with m1 m2 have "final (generate_text model req w) = w\<lparr>trace := trace w @ [Generate a]\<rparr>"
      and "resp (generate_text model req w) =
      Some (case model a of
              Inr t \<Rightarrow> \<lparr>status = 200, payload = Json (JObj [(''output'', JStr t)])\<rparr>
            | Inl e \<Rightarrow> \<lparr>status = 500, payload = Json (JObj [(''error'', JStr (message e))])\<rparr>)"
      by (simp_all add: get_prop_def)
    with Some m3 m4 show ?thesis by simp
  qed
qed

theorem generate_text_no_validation_witness:
  "final (generate_text only_hi \<lparr>req_body = Some [''prompt'' \<mapsto> JStr ''hi''], req_file = None\<rparr>
            empty_world) =
     \<lparr>disk = Map.empty, trace = [Generate (JStr ''hi'')]\<rparr>
   \<and> resp (generate_text only_hi \<lparr>req_body = Some [''prompt'' \<mapsto> JStr ''hi''], req_file = None\<rparr>
            empty_world) =
     Some \<lparr>status = 200, payload = Json (JObj [(''output'', JStr ''hello'')])\<rparr>
   \<and> final (generate_text only_hi \<lparr>req_body = Some Map.empty, req_file = None\<rparr> empty_world) =
     \<lparr>disk = Map.empty, trace = [Generate JUndefined]\<rparr>
   \<and> resp (generate_text only_hi \<lparr>req_body = Some Map.empty, req_file = None\<rparr> empty_world) =
     Some \<lparr>status = 500, payload = Json (JObj [(''error'', JStr ''no prompt'')])\<rparr>
   \<and> uncaught (generate_text only_hi \<lparr>req_body = Some Map.empty, req_file = None\<rparr> empty_world)
       = None"
  using generate_text_no_validation [of
          "\<lparr>req_body = Some [''prompt'' \<mapsto> JStr ''hi''], req_file = None\<rparr>"
          "[''prompt'' \<mapsto> JStr ''hi'']" "JStr ''hi''" only_hi empty_world]
        generate_text_no_validation [of
          "\<lparr>req_body = Some Map.empty, req_file = None\<rparr>" Map.empty JUndefined only_hi empty_world]
  by (simp add: only_hi_def empty_world_def)

text \<open>
  C10. Image handler, request with a body: a \<open>prompt\<close> field that is the empty string is
  replaced by "Describe the image", and so is an absent one and every falsy value
  (\<open>falsy_values\<close> lists them); a truthy one is kept as it is.
\<close>

theorem image_prompt_default_on_falsy:
  assumes "req_body req = Some b"
  shows "(b ''prompt'' = Some (JStr []) \<longrightarrow> image_prompt req = Inr (JStr ''Describe the image''))
       \<and> (b ''prompt'' = None \<longrightarrow> image_prompt req = Inr (JStr ''Describe the image''))
       \<and> (b ''prompt'' = Some v \<and> \<not> truthy v \<longrightarrow>
            image_prompt req = Inr (JStr ''Describe the image''))
       \<and> (b ''prompt'' = Some v \<and> truthy v \<longrightarrow> image_prompt req = Inr v)
       \<and> (\<not> truthy (get_prop b ''prompt'') \<longrightarrow>
            image_prompt req = Inr (JStr ''Describe the image''))
       \<and> (truthy (get_prop b ''prompt'') \<longrightarrow> image_prompt req = Inr (get_prop b ''prompt''))"
  using assms by (simp add: image_prompt_def get_prop_def)

theorem image_prompt_default_on_falsy_witness:
  "image_prompt (photo_request [''prompt'' \<mapsto> JStr []]) = Inr (JStr ''Describe the image'')
   \<and> image_prompt (photo_request [''prompt'' \<mapsto> JNull]) = Inr (JStr ''Describe the image'')
   \<and> image_prompt (photo_request [''prompt'' \<mapsto> JStr ''What breed?'']) = Inr (JStr ''What breed?'')"
  using image_prompt_default_on_falsy [of "photo_request [''prompt'' \<mapsto> JStr []]"
          "[''prompt'' \<mapsto> JStr []]" "JStr []"]
        image_prompt_default_on_falsy [of "photo_request [''prompt'' \<mapsto> JNull]"
          "[''prompt'' \<mapsto> JNull]" JNull]
        image_prompt_default_on_falsy [of "photo_request [''prompt'' \<mapsto> JStr ''What breed?'']"
          "[''prompt'' \<mapsto> JStr ''What breed?'']" "JStr ''What breed?''"]
  by (simp add: photo_request_def)

end
